theory Spec2Isabelle
  imports Main "HOL-Library.AList"
begin

section \<open>Python values and exceptions\<close>

text \<open>
  The exception classes that can reach the two \<open>except\<close> clauses of
  \<open>MyApp._handle_http\<close>, with the builtin hierarchy written out: \<open>ancestors c\<close> lists the
  proper base classes of \<open>c\<close>. \<open>Subclass n b\<close> is a class named \<open>n\<close> that some handler or
  annotation defines with the single base \<open>b\<close>. An exception is identified with its class;
  its message is dropped.
\<close>

datatype exc_class =
    BaseException | Exception
  | ArithmeticError | ZeroDivisionError | OverflowError
  | AttributeError
  | LookupError | IndexError | KeyError
  | RuntimeError | NotImplementedError | RecursionError
  | TypeError
  | ValueError | UnicodeError | UnicodeDecodeError | UnicodeEncodeError | JSONDecodeError
  | Subclass string exc_class

fun ancestors :: "exc_class \<Rightarrow> exc_class list" where
  "ancestors BaseException = []"
| "ancestors Exception = [BaseException]"
| "ancestors ArithmeticError = [Exception, BaseException]"
| "ancestors ZeroDivisionError = [ArithmeticError, Exception, BaseException]"
| "ancestors OverflowError = [ArithmeticError, Exception, BaseException]"
| "ancestors AttributeError = [Exception, BaseException]"
| "ancestors LookupError = [Exception, BaseException]"
| "ancestors IndexError = [LookupError, Exception, BaseException]"
| "ancestors KeyError = [LookupError, Exception, BaseException]"
| "ancestors RuntimeError = [Exception, BaseException]"
| "ancestors NotImplementedError = [RuntimeError, Exception, BaseException]"
| "ancestors RecursionError = [RuntimeError, Exception, BaseException]"
| "ancestors TypeError = [Exception, BaseException]"
| "ancestors ValueError = [Exception, BaseException]"
| "ancestors UnicodeError = [ValueError, Exception, BaseException]"
| "ancestors UnicodeDecodeError = [UnicodeError, ValueError, Exception, BaseException]"
| "ancestors UnicodeEncodeError = [UnicodeError, ValueError, Exception, BaseException]"
| "ancestors JSONDecodeError = [ValueError, Exception, BaseException]"
| "ancestors (Subclass n b) = b # ancestors b"

definition issubclass :: "exc_class \<Rightarrow> exc_class \<Rightarrow> bool" where
  "issubclass c d = (c = d \<or> d \<in> set (ancestors c))"

text \<open>
  The values the router handles: what \<open>json.loads\<close> returns, what the annotations
  \<open>int\<close> and \<open>list[...]\<close> return, and the raw \<open>str\<close> and \<open>bytes\<close> pieces of the
  request. \<open>float\<close> is not modelled. A \<open>str\<close> is a list of 8-bit characters (code points
  below 256), a \<open>dict\<close> with \<open>str\<close> keys an association list in insertion order.
\<close>

datatype pyval =
    PNone | PBool bool | PInt int | PStr string | PBytes string
  | PList "pyval list" | PDict "(string \<times> pyval) list"

type_synonym 'a result = "exc_class + 'a"

type_synonym callable = "pyval \<Rightarrow> pyval result"

type_synonym kwargs = "(string \<times> pyval) list"

subsection \<open>\<open>str(int)\<close>, \<open>int(str)\<close>, \<open>list(str)\<close>\<close>

definition digit_char :: "nat \<Rightarrow> char" where
  "digit_char d = ''0123456789abcdef'' ! d"

fun digits :: "nat \<Rightarrow> string" where
  "digits n = (if n < 10 then [digit_char n] else digits (n div 10) @ [digit_char (n mod 10)])"

text \<open>
  \<open>str(i)\<close> and \<open>repr(i)\<close> of an \<open>int\<close>: the decimal digits, or \<open>ValueError\<close> beyond
  CPython's default limit of 4300 digits for integer string conversion.
\<close>

definition py_str_int :: "int \<Rightarrow> string result" where
  "py_str_int i =
     (let ds = digits (nat \<bar>i\<bar>) in
      if 4300 < length ds then Inl ValueError
      else Inr (if i < 0 then CHR ''-'' # ds else ds))"

definition is_digit :: "char \<Rightarrow> bool" where
  "is_digit c = (48 \<le> (of_char c :: nat) \<and> (of_char c :: nat) \<le> 57)"

definition digit_val :: "char \<Rightarrow> int" where
  "digit_val c = int (of_char c) - 48"

text \<open>
  The characters \<open>int()\<close> skips around a literal: the six ASCII white-space bytes, and
  for a \<open>str\<close> also the Latin-1 spaces U+0085 and U+00A0.
\<close>

definition int_space :: "bool \<Rightarrow> char \<Rightarrow> bool" where
  "int_space is_str c =
     (c \<in> set [CHR 0x09, CHR 0x0A, CHR 0x0B, CHR 0x0C, CHR 0x0D, CHR 0x20]
      \<or> (is_str \<and> c \<in> set [CHR 0x85, CHR 0xA0]))"

fun underscores_ok :: "string \<Rightarrow> bool" where
  "underscores_ok [] = False"
| "underscores_ok [c] = is_digit c"
| "underscores_ok (c # d # r) =
     (is_digit c \<and> (if d = CHR ''_'' then (case r of [] \<Rightarrow> False | e # _ \<Rightarrow> is_digit e \<and> underscores_ok r)
                     else underscores_ok (d # r)))"

definition py_int_literal :: "bool \<Rightarrow> string \<Rightarrow> int result" where
  "py_int_literal is_str s =
     (let s1 = dropWhile (int_space is_str) s;
          neg = (case s1 of [] \<Rightarrow> False | c # _ \<Rightarrow> c = CHR ''-'');
          s2 = (case s1 of [] \<Rightarrow> [] | c # r \<Rightarrow> if c = CHR ''-'' \<or> c = CHR ''+'' then r else s1);
          lit = takeWhile (\<lambda>c. is_digit c \<or> c = CHR ''_'') s2;
          rest = dropWhile (\<lambda>c. is_digit c \<or> c = CHR ''_'') s2;
          ds = filter is_digit lit
      in if underscores_ok lit \<and> list_all (int_space is_str) rest \<and> length ds \<le> 4300
         then Inr ((if neg then - 1 else 1) * foldl (\<lambda>a c. 10 * a + digit_val c) 0 ds)
         else Inl ValueError)"

text \<open>The annotation \<open>int\<close>, called with one argument.\<close>

fun py_int :: callable where
  "py_int (PStr s) = map_sum id PInt (py_int_literal True s)"
| "py_int (PBytes s) = map_sum id PInt (py_int_literal False s)"
| "py_int (PInt i) = Inr (PInt i)"
| "py_int (PBool b) = Inr (PInt (if b then 1 else 0))"
| "py_int v = Inl TypeError"

text \<open>
  The annotation \<open>list[float | int]\<close>, called with one argument: a generic alias calls its
  origin \<open>list\<close>, which iterates the argument.
\<close>

fun py_list :: callable where
  "py_list (PStr s) = Inr (PList (map (\<lambda>c. PStr [c]) s))"
| "py_list (PBytes s) = Inr (PList (map (\<lambda>c. PInt (int (of_char c))) s))"
| "py_list (PList xs) = Inr (PList xs)"
| "py_list (PDict kvs) = Inr (PList (map (\<lambda>kv. PStr (fst kv)) kvs))"
| "py_list v = Inl TypeError"

subsection \<open>\<open>json.dumps\<close> with its default options\<close>

definition escape_char :: "char \<Rightarrow> string" where
  "escape_char c =
     (if c = CHR 0x22 then [CHR 0x5C, CHR 0x22]
      else if c = CHR 0x5C then [CHR 0x5C, CHR 0x5C]
      else if c = CHR 0x0A then [CHR 0x5C, CHR ''n'']
      else if c = CHR 0x0D then [CHR 0x5C, CHR ''r'']
      else if c = CHR 0x09 then [CHR 0x5C, CHR ''t'']
      else if c = CHR 0x08 then [CHR 0x5C, CHR ''b'']
      else if c = CHR 0x0C then [CHR 0x5C, CHR ''f'']
      else if 32 \<le> (of_char c :: nat) \<and> (of_char c :: nat) \<le> 126 then [c]
      else [CHR 0x5C, CHR ''u'', CHR ''0'', CHR ''0'',
            digit_char (of_char c div 16), digit_char (of_char c mod 16)])"

definition encode_basestring_ascii :: "string \<Rightarrow> string" where
  "encode_basestring_ascii s = CHR 0x22 # concat (map escape_char s) @ [CHR 0x22]"

fun join :: "string \<Rightarrow> string list \<Rightarrow> string" where
  "join sep [] = []"
| "join sep [x] = x"
| "join sep (x # y # r) = x @ sep @ join sep (y # r)"

fun collect :: "'a result list \<Rightarrow> 'a list result" where
  "collect [] = Inr []"
| "collect (Inl e # r) = Inl e"
| "collect (Inr x # r) = (case collect r of Inl e \<Rightarrow> Inl e | Inr xs \<Rightarrow> Inr (x # xs))"

definition dumps_list :: "string result list \<Rightarrow> string result" where
  "dumps_list items =
     (case collect items of Inl e \<Rightarrow> Inl e
      | Inr ss \<Rightarrow> Inr (''['' @ join '', '' ss @ '']''))"

definition dumps_item :: "string \<times> string result \<Rightarrow> string result" where
  "dumps_item kv =
     (case snd kv of Inl e \<Rightarrow> Inl e
      | Inr s \<Rightarrow> Inr (encode_basestring_ascii (fst kv) @ '': '' @ s))"

definition dumps_dict :: "(string \<times> string result) list \<Rightarrow> string result" where
  "dumps_dict items =
     (case collect (map dumps_item items) of Inl e \<Rightarrow> Inl e
      | Inr ss \<Rightarrow> Inr (''{'' @ join '', '' ss @ ''}''))"

primrec json_dumps :: "pyval \<Rightarrow> string result" where
  "json_dumps PNone = Inr ''null''"
| "json_dumps (PBool b) = Inr (if b then ''true'' else ''false'')"
| "json_dumps (PInt i) = py_str_int i"
| "json_dumps (PStr s) = Inr (encode_basestring_ascii s)"
| "json_dumps (PBytes s) = Inl TypeError"
| "json_dumps (PList xs) = dumps_list (map json_dumps xs)"
| "json_dumps (PDict kvs) = dumps_dict (map (map_prod id json_dumps) kvs)"

section \<open>The response model\<close>

record HttpResponse =
  body :: string
  status_code :: int
  headers :: "(string \<times> string) list"

definition default_headers :: "(string \<times> string) list" where
  "default_headers = [(''content-type'', ''text/plain'')]"

text \<open>
  \<open>HttpResponse.__init__(body, status_code, headers)\<close>. The \<open>headers\<close> argument is
  \<open>None\<close> or a collection of pairs; \<open>headers if headers else [...]\<close> tests its truth value,
  which is false for \<open>None\<close> and for an empty collection.
\<close>

definition truthy :: "'a list option \<Rightarrow> bool" where
  "truthy h = (case h of None \<Rightarrow> False | Some xs \<Rightarrow> xs \<noteq> [])"

definition HttpResponse_init ::
  "string \<Rightarrow> int \<Rightarrow> (string \<times> string) list option \<Rightarrow> HttpResponse" where
  "HttpResponse_init b s h =
     \<lparr>body = b, status_code = s,
      headers = (if truthy h then the h else default_headers)\<rparr>"

text \<open>
  \<open>JSONResponse.__init__(body, status_code)\<close> takes no headers and calls
  \<open>super().__init__(body=json.dumps(body), status_code=status_code)\<close>.
\<close>

definition JSONResponse_init :: "pyval \<Rightarrow> int \<Rightarrow> HttpResponse result" where
  "JSONResponse_init b s =
     (case json_dumps b of Inl e \<Rightarrow> Inl e
      | Inr text \<Rightarrow> Inr (HttpResponse_init text s None))"

section \<open>Registration\<close>

text \<open>
  An \<open>inspect.Parameter\<close> of a handler's signature: the router reads its \<open>name\<close>, calls
  its \<open>annotation\<close> and, in a membership test, hashes it; \<open>hashable\<close> says whether its
  hash exists, that is whether its annotation and its default are hashable. A handler is
  its signature, in declaration order, and what a call with keyword arguments returns or
  raises.
\<close>

record Parameter =
  name :: string
  annotation :: callable
  hashable :: bool

record handler =
  signature :: "Parameter list"
  call :: "kwargs \<Rightarrow> HttpResponse result"

record Endpoint =
  path :: string
  method' :: string
  func :: handler
  path_args :: "(string \<times> callable) list"
  query_args :: "Parameter list"

text \<open>
  The field \<open>method\<close> of an \<open>Endpoint\<close> is written \<open>method'\<close>.
  \<open>s.split(sep)\<close> for a separator of one character is never an empty list.
\<close>

fun split_chr :: "char \<Rightarrow> string \<Rightarrow> string list" where
  "split_chr sep [] = [[]]"
| "split_chr sep (c # r) =
     (if c = sep then [] # split_chr sep r
      else (case split_chr sep r of [] \<Rightarrow> [[c]] | w # ws \<Rightarrow> (c # w) # ws))"

text \<open>
  The class \<open>\w\<close> of a \<open>str\<close> pattern, on the code points below 256: letters, digits and
  the underscore, with the Latin-1 letters and numeric characters.
\<close>

definition is_word :: "char \<Rightarrow> bool" where
  "is_word c =
     (let n = (of_char c :: nat) in
      list_ex (\<lambda>(lo, hi). lo \<le> n \<and> n \<le> hi)
        [(0x30, 0x39), (0x41, 0x5A), (0x5F, 0x5F), (0x61, 0x7A), (0xAA, 0xAA), (0xB2, 0xB3),
         (0xB5, 0xB5), (0xB9, 0xBA), (0xBC, 0xBE), (0xC0, 0xD6), (0xD8, 0xF6), (0xF8, 0xFF)])"

text \<open>
  \<open>re.findall(r"{(\w+)}", path)\<close>, scanning once from the left: \<open>st\<close> holds the word
  characters read since an open brace that may still start a match. A brace restarts it,
  any other character outside \<open>\w\<close> drops it, and a closing brace after at least one word
  character yields the group.
\<close>

fun findall_braces :: "string option \<Rightarrow> string \<Rightarrow> string list" where
  "findall_braces st [] = []"
| "findall_braces st (c # r) =
     (if c = CHR ''{'' then findall_braces (Some []) r
      else if is_word c then findall_braces (map_option (\<lambda>w. w @ [c]) st) r
      else if c = CHR ''}'' then
        (case st of Some (x # w) \<Rightarrow> (x # w) # findall_braces None r
         | _ \<Rightarrow> findall_braces None r)
      else findall_braces None r)"

text \<open>\<open>xs[i]\<close> for a non-negative index.\<close>

definition getitem :: "'a list \<Rightarrow> nat \<Rightarrow> 'a result" where
  "getitem xs i = (if i < length xs then Inr (xs ! i) else Inl IndexError)"

text \<open>
  \<open>Registerer.add_endpoint\<close>: the registry is the list \<open>_endpoints\<close>. The dict
  comprehension over the path parameters is built by insertion.
\<close>

definition add_endpoint ::
  "Endpoint list \<Rightarrow> string \<Rightarrow> string \<Rightarrow> handler \<Rightarrow> Endpoint list result" where
  "add_endpoint endpoints pth meth f =
     (let args = findall_braces None pth;
          pargs = filter (\<lambda>p. name p \<in> set args) (signature f);
          qargs = filter (\<lambda>p. name p \<notin> set args) (signature f)
      in case getitem (split_chr CHR ''/'' pth) 1 of
           Inl e \<Rightarrow> Inl e
         | Inr key \<Rightarrow>
             Inr (endpoints @
               [\<lparr>path = key, method' = meth, func = f,
                 path_args = foldl (\<lambda>d p. AList.update (name p) (annotation p) d) [] pargs,
                 query_args = qargs\<rparr>]))"

text \<open>
  The words of the specification for the route key: the first non-empty segment of the
  template, if there is one.
\<close>

definition spec_routeKey :: "string \<Rightarrow> string option" where
  "spec_routeKey pth =
     (case filter (\<lambda>x. x \<noteq> []) (split_chr CHR ''/'' pth) of [] \<Rightarrow> None | x # _ \<Rightarrow> Some x)"

section \<open>Matching and binding\<close>

text \<open>
  The library calls of \<open>MyApp\<close> are parameters of the model: \<open>urlsplit(p).path\<close>,
  \<open>parse_qs(q)\<close> as the items of the dict it returns, \<open>k.decode()\<close> and \<open>json.loads(b)\<close>,
  each returning its value or the exception it raises.
\<close>

record pylib =
  urlsplit_path :: "string \<Rightarrow> string result"
  parse_qs :: "string \<Rightarrow> (string \<times> string list) list result"
  bytes_decode :: "string \<Rightarrow> string result"
  json_loads :: "string \<Rightarrow> pyval result"

text \<open>
  \<open>x in d.keys()\<close> for a dict \<open>d\<close> with \<open>str\<close> keys compares \<open>x\<close> with the keys by
  \<open>==\<close>. A \<open>str\<close> equals a key with the same characters; an \<open>inspect.Parameter\<close>
  equals no \<open>str\<close>, as each class compares equal to its own instances only.
\<close>

datatype pyobj = OStr string | OParam Parameter

fun py_eq_str :: "pyobj \<Rightarrow> string \<Rightarrow> bool" where
  "py_eq_str (OStr a) k = (a = k)"
| "py_eq_str (OParam p) k = False"

definition in_keys :: "pyobj \<Rightarrow> (string \<times> 'v) list \<Rightarrow> bool" where
  "in_keys x d = list_ex (py_eq_str x) (map fst d)"

text \<open>\<open>{k.decode(): v[0] for k, v in query_args.items()}\<close>, built by insertion.\<close>

fun decode_items ::
  "pylib \<Rightarrow> (string \<times> string list) list \<Rightarrow> (string \<times> string) list
     \<Rightarrow> (string \<times> string) list result" where
  "decode_items lib [] d = Inr d"
| "decode_items lib ((k, v) # r) d =
     (case bytes_decode lib k of
        Inl e \<Rightarrow> Inl e
      | Inr k' \<Rightarrow>
          (case getitem v 0 of
             Inl e \<Rightarrow> Inl e
           | Inr x \<Rightarrow> decode_items lib r (AList.update k' x d)))"

text \<open>
  The first loop of the match: \<open>for i, arg in enumerate(path_args)\<close>. The argument is a
  \<open>str\<close>.
\<close>

fun bind_path ::
  "(string \<times> callable) list \<Rightarrow> nat \<Rightarrow> string list \<Rightarrow> kwargs \<Rightarrow> kwargs result" where
  "bind_path pa i [] func_args = Inr func_args"
| "bind_path pa i (arg # r) func_args =
     (case getitem (map fst pa) i of
        Inl e \<Rightarrow> Inl e
      | Inr arg_name \<Rightarrow>
          (case map_of pa arg_name of
             None \<Rightarrow> Inl KeyError
           | Some f \<Rightarrow>
               (case f (PStr arg) of
                  Inl e \<Rightarrow> Inl e
                | Inr v \<Rightarrow> bind_path pa (Suc i) r (AList.update arg_name v func_args))))"

text \<open>
  The second loop: \<open>for i, (name, value) in enumerate(query_args.items())\<close>, where \<open>qd\<close>
  is the whole dict for the test \<open>name in query_args\<close>. The value is a \<open>bytes\<close>.
\<close>

fun bind_query ::
  "Parameter list \<Rightarrow> (string \<times> string) list \<Rightarrow> nat \<Rightarrow> (string \<times> string) list \<Rightarrow> kwargs
     \<Rightarrow> kwargs result" where
  "bind_query qa qd i [] func_args = Inr func_args"
| "bind_query qa qd i ((nm, val) # r) func_args =
     (if in_keys (OStr nm) qd then
        (case getitem qa i of
           Inl e \<Rightarrow> Inl e
         | Inr p \<Rightarrow>
             (case annotation p (PBytes val) of
                Inl e \<Rightarrow> Inl e
              | Inr v \<Rightarrow> bind_query qa qd (Suc i) r (AList.update nm v func_args)))
      else bind_query qa qd (Suc i) r func_args)"

text \<open>
  The third step: \<open>if data is not None: diff = [...]; for p in diff: ...\<close>. The
  membership test of the comprehension hashes each parameter and raises \<open>TypeError\<close> for
  one that has no hash, before anything is assigned.
\<close>

definition bind_body :: "Parameter list \<Rightarrow> pyval \<Rightarrow> kwargs \<Rightarrow> kwargs result" where
  "bind_body qa data func_args =
     (if data \<noteq> PNone then
        (if list_all hashable qa then
           (let diff = filter (\<lambda>x. \<not> in_keys (OParam x) func_args) qa
            in Inr (foldl (\<lambda>d p. AList.update (name p) data d) func_args diff))
         else Inl TypeError)
      else Inr func_args)"

text \<open>The body of the \<open>if\<close> for a matching endpoint, up to its \<open>return\<close>.\<close>

definition bind ::
  "Endpoint \<Rightarrow> string list \<Rightarrow> (string \<times> string) list \<Rightarrow> pyval \<Rightarrow> kwargs result" where
  "bind endpoint segs qd data =
     (case bind_path (path_args endpoint) 0 segs [] of
        Inl e \<Rightarrow> Inl e
      | Inr fa1 \<Rightarrow>
          (case bind_query (query_args endpoint) qd 0 qd fa1 of
             Inl e \<Rightarrow> Inl e
           | Inr fa2 \<Rightarrow> bind_body (query_args endpoint) data fa2))"

text \<open>\<open>for endpoint in self._registerer.endpoints\<close>, and the \<open>raise\<close> after it.\<close>

fun find_loop ::
  "Endpoint list \<Rightarrow> string \<Rightarrow> string \<Rightarrow> string list \<Rightarrow> (string \<times> string) list \<Rightarrow> pyval
     \<Rightarrow> (Endpoint \<times> kwargs) result" where
  "find_loop [] ep_path meth segs qd data = Inl NotImplementedError"
| "find_loop (endpoint # r) ep_path meth segs qd data =
     (if path endpoint = ep_path \<and> method' endpoint = meth then
        (case bind endpoint segs qd data of
           Inl e \<Rightarrow> Inl e
         | Inr func_args \<Rightarrow> Inr (endpoint, func_args))
      else find_loop r ep_path meth segs qd data)"

definition find_endpoint ::
  "pylib \<Rightarrow> Endpoint list \<Rightarrow> string \<Rightarrow> string \<Rightarrow> string \<Rightarrow> pyval
     \<Rightarrow> (Endpoint \<times> kwargs) result" where
  "find_endpoint lib endpoints pth query_string meth data =
     (case urlsplit_path lib pth of
        Inl e \<Rightarrow> Inl e
      | Inr up \<Rightarrow>
          (let urlst = filter (\<lambda>x. x \<noteq> []) (split_chr CHR ''/'' up);
               ep_path = (if length urlst > 0 then hd urlst else []);
               segs = (if length urlst > 1 then tl urlst else [])
           in case parse_qs lib query_string of
                Inl e \<Rightarrow> Inl e
              | Inr items \<Rightarrow>
                  (case decode_items lib items [] of
                     Inl e \<Rightarrow> Inl e
                   | Inr qd \<Rightarrow> find_loop endpoints ep_path meth segs qd data)))"

section \<open>The dispatcher\<close>

text \<open>
  The three entries of the connection scope that \<open>_handle_http\<close> reads, and the outcome
  of one request: the response passed to \<open>send_response\<close>, or the exception that leaves
  \<open>_handle_http\<close>. The received message is the value under its key \<open>"body"\<close>, if any.
\<close>

record scope =
  scope_path :: string
  scope_query_string :: string
  scope_method :: string

datatype outcome = Responded HttpResponse | Propagated exc_class

definition decode_body :: "pylib \<Rightarrow> string option \<Rightarrow> pyval result" where
  "decode_body lib msg =
     (case json_loads lib (case msg of None \<Rightarrow> ''[]'' | Some b \<Rightarrow> b) of
        Inl e \<Rightarrow> (if issubclass e JSONDecodeError then Inr PNone else Inl e)
      | Inr data \<Rightarrow> Inr data)"

definition except_clauses :: "exc_class \<Rightarrow> outcome" where
  "except_clauses e =
     (if issubclass e ValueError \<or> issubclass e TypeError \<or> issubclass e JSONDecodeError
      then Responded (HttpResponse_init [] 422 None)
      else if issubclass e NotImplementedError
      then Responded (HttpResponse_init [] 404 None)
      else Propagated e)"

definition handle_http :: "pylib \<Rightarrow> Endpoint list \<Rightarrow> scope \<Rightarrow> string option \<Rightarrow> outcome" where
  "handle_http lib endpoints sc msg =
     (case decode_body lib msg of
        Inl e \<Rightarrow> Propagated e
      | Inr data \<Rightarrow>
          (case find_endpoint lib endpoints (scope_path sc) (scope_query_string sc)
                  (scope_method sc) data of
             Inl e \<Rightarrow> except_clauses e
           | Inr (endpoint, func_args) \<Rightarrow>
               (case call (func endpoint) func_args of
                  Inl e \<Rightarrow> except_clauses e
                | Inr answer \<Rightarrow> Responded answer)))"

section \<open>The handlers of \<open>main.py\<close>\<close>

text \<open>
  A call \<open>f(**func_args)\<close> of a function with the single parameter \<open>p\<close> and no default:
  a keyword other than \<open>p\<close>, or no keyword \<open>p\<close>, raises \<open>TypeError\<close>.
\<close>

definition call_kw :: "string \<Rightarrow> (pyval \<Rightarrow> HttpResponse result) \<Rightarrow> kwargs \<Rightarrow> HttpResponse result" where
  "call_kw p f kw =
     (if list_all (\<lambda>k. k = p) (map fst kw) then
        (case map_of kw p of None \<Rightarrow> Inl TypeError | Some v \<Rightarrow> f v)
      else Inl TypeError)"

text \<open>
  The value of \<open>n\<close> in \<open>n < 0\<close>, \<open>n + 1\<close> and \<open>n - 1\<close>: an \<open>int\<close> or a \<open>bool\<close>; the other
  values raise \<open>TypeError\<close> at the comparison.
\<close>

fun as_int :: "pyval \<Rightarrow> int option" where
  "as_int (PInt i) = Some i"
| "as_int (PBool b) = Some (if b then 1 else 0)"
| "as_int v = None"

definition factorial_body :: "pyval \<Rightarrow> HttpResponse result" where
  "factorial_body n =
     (case as_int n of
        None \<Rightarrow> Inl TypeError
      | Some i \<Rightarrow>
          if i < 0 then Inr (HttpResponse_init [] 400 None)
          else (case py_str_int (foldl (\<lambda>x y. x * y) 1 [1..i]) of
                  Inl e \<Rightarrow> Inl e
                | Inr text \<Rightarrow> JSONResponse_init (PDict [(''result'', PStr text)]) 200))"

definition factorial :: handler where
  "factorial = \<lparr>signature = [\<lparr>name = ''n'', annotation = py_int, hashable = True\<rparr>],
                 call = call_kw ''n'' factorial_body\<rparr>"

text \<open>\<open>a, b = 1, 1\<close> and then \<open>a, b = b, a + b\<close>, \<open>k\<close> times.\<close>

fun fib_loop :: "nat \<Rightarrow> int \<Rightarrow> int \<Rightarrow> int" where
  "fib_loop 0 a b = a"
| "fib_loop (Suc k) a b = fib_loop k b (a + b)"

definition fibonacci_body :: "pyval \<Rightarrow> HttpResponse result" where
  "fibonacci_body n =
     (case as_int n of
        None \<Rightarrow> Inl TypeError
      | Some i \<Rightarrow>
          if i < 0 then Inr (HttpResponse_init [] 400 None)
          else (case py_str_int (fib_loop (nat (i - 1)) 1 1) of
                  Inl e \<Rightarrow> Inl e
                | Inr text \<Rightarrow> JSONResponse_init (PDict [(''result'', PStr text)]) 200))"

definition fibonacci :: handler where
  "fibonacci = \<lparr>signature = [\<lparr>name = ''n'', annotation = py_int, hashable = True\<rparr>],
                 call = call_kw ''n'' fibonacci_body\<rparr>"

text \<open>
  \<open>mean\<close> computes with \<open>float\<close>; its signature is modelled and what a call of it returns
  is a parameter.
\<close>

definition mean :: "(kwargs \<Rightarrow> HttpResponse result) \<Rightarrow> handler" where
  "mean mean_call = \<lparr>signature = [\<lparr>name = ''array'', annotation = py_list, hashable = True\<rparr>],
                      call = mean_call\<rparr>"

text \<open>The three registrations of \<open>main.py\<close>, in their order.\<close>

definition regesterer :: "(kwargs \<Rightarrow> HttpResponse result) \<Rightarrow> Endpoint list result" where
  "regesterer mean_call =
     (case add_endpoint [] ''/factorial/'' ''GET'' factorial of
        Inl e \<Rightarrow> Inl e
      | Inr r1 \<Rightarrow>
          (case add_endpoint r1 ''/fibonacci/{n}'' ''GET'' fibonacci of
             Inl e \<Rightarrow> Inl e
           | Inr r2 \<Rightarrow> add_endpoint r2 ''/mean/'' ''GET'' (mean mean_call)))"

text \<open>
  \<open>regesterer.endpoints\<close> as \<open>MyApp\<close> reads it once \<open>main.py\<close> is imported: none of
  the three registrations raises.
\<close>

definition app_endpoints :: "(kwargs \<Rightarrow> HttpResponse result) \<Rightarrow> Endpoint list" where
  "app_endpoints mean_call = (case regesterer mean_call of Inl e \<Rightarrow> [] | Inr r \<Rightarrow> r)"

section \<open>Library behaviour on sample requests\<close>

text \<open>
  Stand-ins for the library on the requests evaluated below. \<open>sample_urlsplit_path\<close> is
  \<open>urlsplit(p).path\<close> for a path that starts with one slash, not two, and has no tab or
  line break: the text before the first \<open>?\<close> or \<open>#\<close>. \<open>sample_parse_qs\<close> is \<open>parse_qs\<close>
  for an ASCII query string without \<open>%\<close> and \<open>+\<close>: the fields between \<open>&\<close> that have a
  \<open>=\<close> and a non-empty value, grouped by name. \<open>sample_decode\<close> is \<open>bytes.decode\<close> on
  ASCII bytes. \<open>sample_loads\<close> gives the value of \<open>json.loads\<close> on the texts \<open>[]\<close>,
  \<open>null\<close> and \<open>[1]\<close>, its \<open>UnicodeDecodeError\<close> on the single byte \<open>0xFF\<close>, and its
  \<open>JSONDecodeError\<close> on the empty text and on \<open>{\<close>; it is used on these six texts only.
\<close>

definition sample_urlsplit_path :: "string \<Rightarrow> string result" where
  "sample_urlsplit_path p = Inr (takeWhile (\<lambda>c. c \<noteq> CHR ''?'' \<and> c \<noteq> CHR ''#'') p)"

definition qs_field :: "string \<Rightarrow> (string \<times> string) list" where
  "qs_field f =
     (let k = takeWhile (\<lambda>c. c \<noteq> CHR ''='') f; r = dropWhile (\<lambda>c. c \<noteq> CHR ''='') f
      in if r = [] then [] else if tl r = [] then [] else [(k, tl r)])"

definition qs_add :: "(string \<times> string list) list \<Rightarrow> string \<times> string \<Rightarrow> (string \<times> string list) list" where
  "qs_add d kv =
     (case map_of d (fst kv) of
        None \<Rightarrow> d @ [(fst kv, [snd kv])]
      | Some vs \<Rightarrow> AList.update (fst kv) (vs @ [snd kv]) d)"

definition sample_parse_qs :: "string \<Rightarrow> (string \<times> string list) list result" where
  "sample_parse_qs q = Inr (foldl qs_add [] (concat (map qs_field (split_chr CHR ''&'' q))))"

definition sample_decode :: "string \<Rightarrow> string result" where
  "sample_decode k =
     (if list_all (\<lambda>c. (of_char c :: nat) < 128) k then Inr k else Inl UnicodeDecodeError)"

definition sample_loads :: "string \<Rightarrow> pyval result" where
  "sample_loads s =
     (if s = ''[]'' then Inr (PList [])
      else if s = ''null'' then Inr PNone
      else if s = ''[1]'' then Inr (PList [PInt 1])
      else if s = [CHR 0xFF] then Inl UnicodeDecodeError
      else Inl JSONDecodeError)"

text \<open>
  No sample request reaches \<open>mean\<close>; the stand-in for its call is the \<open>TypeError\<close> of a
  call without the argument \<open>array\<close>.
\<close>

definition sample_mean_call :: "kwargs \<Rightarrow> HttpResponse result" where
  "sample_mean_call kw = Inl TypeError"

definition sample_lib :: pylib where
  "sample_lib = \<lparr>urlsplit_path = sample_urlsplit_path, parse_qs = sample_parse_qs,
                   bytes_decode = sample_decode, json_loads = sample_loads\<rparr>"

section \<open>Properties of the response model\<close>

lemma HttpResponse_init_None: "headers (HttpResponse_init b s None) = default_headers"
  by (simp add: HttpResponse_init_def truthy_def)

text \<open>
  C8. A \<open>JSONResponse\<close> is always constructed without headers, so whenever its
  construction returns, its headers are the default \<open>[("content-type", "text/plain")]\<close>
  although its body is the JSON text of the value, with the given status code.
\<close>

theorem JSONResponse_default_headers:
  "JSONResponse_init b s = Inr r \<Longrightarrow>
     headers r = [(''content-type'', ''text/plain'')] \<and> json_dumps b = Inr (body r)
     \<and> status_code r = s"
  by (auto simp: JSONResponse_init_def HttpResponse_init_def truthy_def default_headers_def
      split: sum.splits)

theorem JSONResponse_default_headers_witness:
  \<open>JSONResponse_init (PDict [(''result'', PStr ''120'')]) 200
     = Inr \<lparr>body = ''{"result": "120"}'', status_code = 200,
            headers = [(''content-type'', ''text/plain'')]\<rparr>
   \<and> headers \<lparr>body = ''{"result": "120"}'', status_code = 200,
            headers = [(''content-type'', ''text/plain'')]\<rparr> = [(''content-type'', ''text/plain'')]\<close>
  using JSONResponse_default_headers
    [of "PDict [(''result'', PStr ''120'')]" 200
        \<open>\<lparr>body = ''{"result": "120"}'', status_code = 200,
            headers = [(''content-type'', ''text/plain'')]\<rparr>\<close>]
  by (simp add: JSONResponse_init_def HttpResponse_init_def truthy_def default_headers_def
      dumps_dict_def dumps_item_def encode_basestring_ascii_def escape_char_def)

text \<open>
  C9. An \<open>HttpResponse\<close> constructed with an empty, non-\<open>None\<close> headers collection gets the
  default headers, because the constructor tests the truth value of the argument; a
  non-empty collection is kept.
\<close>

theorem HttpResponse_empty_headers_default:
  "headers (HttpResponse_init b s (Some [])) = [(''content-type'', ''text/plain'')]
   \<and> headers (HttpResponse_init b s (Some (h # hs))) = h # hs"
  by (simp add: HttpResponse_init_def truthy_def default_headers_def)

section \<open>The registry of \<open>main.py\<close>\<close>

lemma regesterer_value:
  "regesterer mc =
     Inr [\<lparr>path = ''factorial'', method' = ''GET'', func = factorial, path_args = [],
           query_args = [\<lparr>name = ''n'', annotation = py_int, hashable = True\<rparr>]\<rparr>,
          \<lparr>path = ''fibonacci'', method' = ''GET'', func = fibonacci,
           path_args = [(''n'', py_int)], query_args = []\<rparr>,
          \<lparr>path = ''mean'', method' = ''GET'', func = mean mc, path_args = [],
           query_args = [\<lparr>name = ''array'', annotation = py_list, hashable = True\<rparr>]\<rparr>]"
proof -
  have 1: "add_endpoint [] ''/factorial/'' ''GET'' factorial =
     Inr [\<lparr>path = ''factorial'', method' = ''GET'', func = factorial, path_args = [],
           query_args = [\<lparr>name = ''n'', annotation = py_int, hashable = True\<rparr>]\<rparr>]"
    by (simp add: add_endpoint_def getitem_def factorial_def is_word_def)
  have 2: "add_endpoint r ''/fibonacci/{n}'' ''GET'' fibonacci =
     Inr (r @ [\<lparr>path = ''fibonacci'', method' = ''GET'', func = fibonacci,
           path_args = [(''n'', py_int)], query_args = []\<rparr>])" for r
    by (simp add: add_endpoint_def getitem_def fibonacci_def is_word_def)
  have 3: "add_endpoint r ''/mean/'' ''GET'' (mean mc) =
     Inr (r @ [\<lparr>path = ''mean'', method' = ''GET'', func = mean mc, path_args = [],
           query_args = [\<lparr>name = ''array'', annotation = py_list, hashable = True\<rparr>]\<rparr>])" for r
    by (simp add: add_endpoint_def getitem_def mean_def is_word_def)
  show ?thesis by (simp add: regesterer_def 1 2 3)
qed

lemma app_endpoints_value:
  "app_endpoints mc =
     [\<lparr>path = ''factorial'', method' = ''GET'', func = factorial, path_args = [],
       query_args = [\<lparr>name = ''n'', annotation = py_int, hashable = True\<rparr>]\<rparr>,
      \<lparr>path = ''fibonacci'', method' = ''GET'', func = fibonacci,
       path_args = [(''n'', py_int)], query_args = []\<rparr>,
      \<lparr>path = ''mean'', method' = ''GET'', func = mean mc, path_args = [],
       query_args = [\<lparr>name = ''array'', annotation = py_list, hashable = True\<rparr>]\<rparr>]"
  by (simp add: app_endpoints_def regesterer_value)

section \<open>Evaluating the handlers\<close>

lemma fib_loop_6: "fib_loop 6 1 1 = 13"
  by (simp add: eval_nat_numeral)

lemma py_str_int_13: "py_str_int 13 = Inr ''13''"
  by (simp add: py_str_int_def digit_char_def)

lemma dumps_result_13: \<open>json_dumps (PDict [(''result'', PStr ''13'')]) = Inr ''{"result": "13"}''\<close>
  by (simp add: dumps_dict_def dumps_item_def encode_basestring_ascii_def escape_char_def)

lemma fibonacci_body_7:
  \<open>fibonacci_body (PInt 7) =
     Inr \<lparr>body = ''{"result": "13"}'', status_code = 200,
           headers = [(''content-type'', ''text/plain'')]\<rparr>\<close>
  by (simp add: fibonacci_body_def fib_loop_6 py_str_int_13 dumps_result_13 JSONResponse_init_def
      HttpResponse_init_def truthy_def default_headers_def del: json_dumps.simps)

lemma py_int_7: "py_int (PStr ''7'') = Inr (PInt 7)"
  by (simp add: py_int_literal_def int_space_def is_digit_def digit_val_def)

lemma bind_body_no_query_args: "bind_body [] data fa = Inr fa"
  by (simp add: bind_body_def)

lemma segments_fibonacci_7:
  "filter (\<lambda>x. x \<noteq> []) (split_chr CHR ''/'' ''/fibonacci/7'') = [''fibonacci'', ''7'']"
  by simp

lemma py_int_5: "py_int (PBytes ''5'') = Inr (PInt 5)"
  by (simp add: py_int_literal_def int_space_def is_digit_def digit_val_def)

lemma py_int_abc: "py_int (PBytes ''abc'') = Inl ValueError"
  by (simp add: py_int_literal_def int_space_def is_digit_def digit_val_def)

lemma factorial_body_list: "factorial_body (PList xs) = Inl TypeError"
  by (simp add: factorial_body_def)

section \<open>The binder, step by step\<close>

lemma in_keys_OStr: "in_keys (OStr k) d = (k \<in> set (map fst d))"
  by (induction d) (auto simp: in_keys_def)

lemma in_keys_OParam: "in_keys (OParam p) d = False"
  by (induction d) (auto simp: in_keys_def)

lemma foldl_update_all:
  "p \<in> set ps \<Longrightarrow>
     map_of (foldl (\<lambda>d p. AList.update (name p) data d) fa ps) (name p) = Some data"
proof (induction ps arbitrary: fa rule: rev_induct)
  case Nil
  then show ?case by simp
next
  case (snoc x xs)
  then show ?case by (cases "name x = name p") (auto simp: update_conv')
qed

text \<open>
  With a body other than \<open>None\<close>, every declared query parameter is in \<open>diff\<close> and ends
  bound to the body, whatever the first two steps stored under its name.
\<close>

lemma bind_body_assigns_all:
  "data \<noteq> PNone \<Longrightarrow> list_all hashable qa \<Longrightarrow> p \<in> set qa \<Longrightarrow>
     \<exists>fa'. bind_body qa data fa = Inr fa' \<and> map_of fa' (name p) = Some data"
  by (simp add: bind_body_def in_keys_OParam foldl_update_all)

lemma find_loop_find:
  "find_loop eps k m segs qd data =
     (case List.find (\<lambda>e. path e = k \<and> method' e = m) eps of
        None \<Rightarrow> Inl NotImplementedError
      | Some ep \<Rightarrow> (case bind ep segs qd data of Inl e \<Rightarrow> Inl e | Inr fa \<Rightarrow> Inr (ep, fa)))"
  by (induction eps) auto

lemma find_endpoint_parsed:
  assumes "urlsplit_path lib p = Inr up" and "parse_qs lib q = Inr items"
    and "decode_items lib items [] = Inr qd"
    and "filter (\<lambda>x. x \<noteq> []) (split_chr CHR ''/'' up) = urlst"
  shows "find_endpoint lib eps p q m data =
           find_loop eps (case urlst of [] \<Rightarrow> [] | k # r \<Rightarrow> k) m (tl urlst) qd data"
proof (cases urlst)
  case Nil
  with assms show ?thesis by (simp add: find_endpoint_def)
next
  case (Cons k r)
  with assms show ?thesis by (cases r) (simp_all add: find_endpoint_def)
qed

section \<open>The sample library on the sample requests\<close>

lemma sample_urlsplit:
  "urlsplit_path sample_lib p = Inr (takeWhile (\<lambda>c. c \<noteq> CHR ''?'' \<and> c \<noteq> CHR ''#'') p)"
  by (simp add: sample_lib_def sample_urlsplit_path_def)

lemma sample_query_n5: "parse_qs sample_lib ''n=5'' = Inr [(''n'', [''5''])]"
  by (simp add: sample_lib_def sample_parse_qs_def qs_field_def qs_add_def)

lemma sample_decode_n: "bytes_decode sample_lib ''n'' = Inr ''n''"
  by (simp add: sample_lib_def sample_decode_def)

lemma factorial_find:
  "find_endpoint sample_lib (app_endpoints mc) ''/factorial/'' ''n=5'' ''GET'' data =
     (case bind \<lparr>path = ''factorial'', method' = ''GET'', func = factorial, path_args = [],
         query_args = [\<lparr>name = ''n'', annotation = py_int, hashable = True\<rparr>]\<rparr> [] [(''n'', ''5'')] data of
        Inl e \<Rightarrow> Inl e
      | Inr fa \<Rightarrow> Inr (\<lparr>path = ''factorial'', method' = ''GET'', func = factorial, path_args = [],
         query_args = [\<lparr>name = ''n'', annotation = py_int, hashable = True\<rparr>]\<rparr>, fa))"
  unfolding find_endpoint_def sample_urlsplit sample_query_n5 app_endpoints_value
  by (simp add: sample_decode_n getitem_def Let_def)

section \<open>Sample requests\<close>

text \<open>
  C7. \<open>GET /fibonacci/7\<close> against the registry of \<open>main.py\<close>: whenever the library
  splits the path as it is, parses the empty query string to the empty dict and the body
  decoding returns, the response has status 200 and the body \<open>{"result": "13"}\<close>; the
  loop of the handler runs through 1, 1, 2, 3, 5, 8, 13.
\<close>

theorem fibonacci_7_response:
  assumes url: "urlsplit_path lib ''/fibonacci/7'' = Inr ''/fibonacci/7''"
    and qs: "parse_qs lib [] = Inr []"
    and dec: "decode_body lib msg = Inr data"
  shows \<open>handle_http lib (app_endpoints mc)
            \<lparr>scope_path = ''/fibonacci/7'', scope_query_string = [], scope_method = ''GET''\<rparr> msg
          = Responded \<lparr>body = ''{"result": "13"}'', status_code = 200,
                       headers = [(''content-type'', ''text/plain'')]\<rparr>
         \<and> map (\<lambda>k. fib_loop k 1 1) [0, 1, 2, 3, 4, 5, 6] = [1, 1, 2, 3, 5, 8, 13]\<close>
proof -
  have b: "bind \<lparr>path = ''fibonacci'', method' = ''GET'', func = fibonacci,
           path_args = [(''n'', py_int)], query_args = []\<rparr> [''7''] [] data = Inr [(''n'', PInt 7)]"
    by (simp add: bind_def getitem_def py_int_7 bind_body_no_query_args del: py_int.simps)
  have f: "find_endpoint lib (app_endpoints mc) ''/fibonacci/7'' [] ''GET'' data =
      Inr (\<lparr>path = ''fibonacci'', method' = ''GET'', func = fibonacci,
           path_args = [(''n'', py_int)], query_args = []\<rparr>, [(''n'', PInt 7)])"
    unfolding find_endpoint_def url qs app_endpoints_value
    by (simp add: b segments_fibonacci_7 del: split_chr.simps)
  have c: "call fibonacci [(''n'', PInt 7)] = fibonacci_body (PInt 7)"
    by (simp add: fibonacci_def call_kw_def)
  have \<open>handle_http lib (app_endpoints mc)
            \<lparr>scope_path = ''/fibonacci/7'', scope_query_string = [], scope_method = ''GET''\<rparr> msg
          = Responded \<lparr>body = ''{"result": "13"}'', status_code = 200,
                       headers = [(''content-type'', ''text/plain'')]\<rparr>\<close>
    by (simp add: handle_http_def dec f c fibonacci_body_7)
  moreover have "map (\<lambda>k. fib_loop k 1 1) [0, 1, 2, 3, 4, 5, 6] = [1, 1, 2, 3, 5, 8, 13]"
    by (simp add: eval_nat_numeral)
  ultimately show ?thesis by simp
qed

theorem fibonacci_7_response_witness:
  \<open>urlsplit_path sample_lib ''/fibonacci/7'' = Inr ''/fibonacci/7''
   \<and> parse_qs sample_lib [] = Inr []
   \<and> decode_body sample_lib (Some []) = Inr PNone
   \<and> handle_http sample_lib (app_endpoints sample_mean_call)
        \<lparr>scope_path = ''/fibonacci/7'', scope_query_string = [], scope_method = ''GET''\<rparr> (Some [])
      = Responded \<lparr>body = ''{"result": "13"}'', status_code = 200,
                   headers = [(''content-type'', ''text/plain'')]\<rparr>\<close>
proof -
  have url: "urlsplit_path sample_lib ''/fibonacci/7'' = Inr ''/fibonacci/7''"
    by (simp add: sample_lib_def sample_urlsplit_path_def)
  have qs: "parse_qs sample_lib [] = Inr []"
    by (simp add: sample_lib_def sample_parse_qs_def qs_field_def)
  have dec: "decode_body sample_lib (Some []) = Inr PNone"
    by (simp add: decode_body_def sample_lib_def sample_loads_def issubclass_def)
  from fibonacci_7_response [OF url qs dec, of sample_mean_call] url qs dec
  show ?thesis by simp
qed

section \<open>The body and the query parameters\<close>

text \<open>
  C1. The request \<open>GET /factorial/?n=5\<close>. Without a decoded body the binder returns
  \<open>n = 5\<close>. With the decoded body \<open>[1]\<close> the query parameter \<open>n\<close>, already bound to 5
  from the query string, is bound to the whole body instead: the test
  \<open>x not in func_args.keys()\<close> compares a parameter object with the names, so it holds for
  every declared query parameter. The handler then raises \<open>TypeError\<close> and the response
  has status 422.
\<close>

theorem body_overwrites_bound_query_parameter:
  "map_sum id snd (find_endpoint sample_lib (app_endpoints sample_mean_call)
      ''/factorial/'' ''n=5'' ''GET'' PNone) = Inr [(''n'', PInt 5)]
   \<and> map_sum id snd (find_endpoint sample_lib (app_endpoints sample_mean_call)
      ''/factorial/'' ''n=5'' ''GET'' (PList [PInt 1])) = Inr [(''n'', PList [PInt 1])]
   \<and> handle_http sample_lib (app_endpoints sample_mean_call)
        \<lparr>scope_path = ''/factorial/'', scope_query_string = ''n=5'', scope_method = ''GET''\<rparr>
        (Some ''[1]'')
      = Responded \<lparr>body = [], status_code = 422, headers = [(''content-type'', ''text/plain'')]\<rparr>"
proof -
  have b1: "bind \<lparr>path = ''factorial'', method' = ''GET'', func = factorial, path_args = [],
         query_args = [\<lparr>name = ''n'', annotation = py_int, hashable = True\<rparr>]\<rparr> [] [(''n'', ''5'')] PNone
     = Inr [(''n'', PInt 5)]"
    by (simp add: bind_def bind_body_def in_keys_def getitem_def py_int_5 del: py_int.simps)
  have b2: "bind \<lparr>path = ''factorial'', method' = ''GET'', func = factorial, path_args = [],
         query_args = [\<lparr>name = ''n'', annotation = py_int, hashable = True\<rparr>]\<rparr> [] [(''n'', ''5'')] (PList [PInt 1])
     = Inr [(''n'', PList [PInt 1])]"
    by (simp add: bind_def bind_body_def in_keys_def getitem_def py_int_5 del: py_int.simps)
  have d: "decode_body sample_lib (Some ''[1]'') = Inr (PList [PInt 1])"
    by (simp add: decode_body_def sample_lib_def sample_loads_def)
  have c: "call factorial [(''n'', PList [PInt 1])] = Inl TypeError"
    by (simp add: factorial_def call_kw_def factorial_body_list)
  have h: "handle_http sample_lib (app_endpoints sample_mean_call)
        \<lparr>scope_path = ''/factorial/'', scope_query_string = ''n=5'', scope_method = ''GET''\<rparr>
        (Some ''[1]'')
      = Responded \<lparr>body = [], status_code = 422, headers = [(''content-type'', ''text/plain'')]\<rparr>"
    by (simp add: handle_http_def d factorial_find b2 c except_clauses_def issubclass_def
        HttpResponse_init_def truthy_def default_headers_def)
  show ?thesis by (simp add: factorial_find b1 b2 h)
qed

section \<open>Decoding the body\<close>

text \<open>
  C2, as the code has it. A body on which \<open>json.loads\<close> raises a JSON-decode error is
  decoded to \<open>None\<close>, and no JSON-decode error leaves the decoding step. A message without
  a body is decoded as the default text \<open>[]\<close>: the binder sees the empty list, not \<open>None\<close>.
\<close>

theorem decode_body_lenient:
  "(json_loads lib b = Inl e \<and> issubclass e JSONDecodeError \<longrightarrow> decode_body lib (Some b) = Inr PNone)
   \<and> (json_loads lib ''[]'' = Inr (PList []) \<longrightarrow> decode_body lib None = Inr (PList []))
   \<and> (decode_body lib msg = Inl e' \<longrightarrow> \<not> issubclass e' JSONDecodeError)"
  by (auto simp: decode_body_def split: sum.splits if_splits option.splits)

theorem decode_body_lenient_witness:
  "json_loads sample_lib ''{'' = Inl JSONDecodeError \<and> issubclass JSONDecodeError JSONDecodeError
   \<and> decode_body sample_lib (Some ''{'') = Inr PNone
   \<and> json_loads sample_lib ''[]'' = Inr (PList []) \<and> decode_body sample_lib None = Inr (PList [])
   \<and> decode_body sample_lib (Some [CHR 0xFF]) = Inl UnicodeDecodeError
   \<and> \<not> issubclass UnicodeDecodeError JSONDecodeError"
proof -
  have 1: "json_loads sample_lib ''{'' = Inl JSONDecodeError"
    by (simp add: sample_lib_def sample_loads_def)
  have 2: "issubclass JSONDecodeError JSONDecodeError" by (simp add: issubclass_def)
  have 3: "json_loads sample_lib ''[]'' = Inr (PList [])"
    by (simp add: sample_lib_def sample_loads_def)
  have 4: "decode_body sample_lib (Some [CHR 0xFF]) = Inl UnicodeDecodeError"
    by (simp add: decode_body_def sample_lib_def sample_loads_def issubclass_def)
  from decode_body_lenient [of sample_lib "''{''" JSONDecodeError "Some [CHR 0xFF]" UnicodeDecodeError]
    1 2 3 4
  show ?thesis by simp
qed

text \<open>
  The claim C2 as written fails on a message without a body: the decoded body is the
  empty list, which is not \<open>None\<close>.
\<close>

theorem absent_body_counterexample:
  "decode_body sample_lib None = Inr (PList []) \<and> decode_body sample_lib None \<noteq> Inr PNone"
  by (simp add: decode_body_def sample_lib_def sample_loads_def)

section \<open>More segments or query entries than parameters\<close>

lemma bind_path_append:
  "bind_path pa i (xs @ ys) fa =
     (case bind_path pa i xs fa of Inl e \<Rightarrow> Inl e
      | Inr fa' \<Rightarrow> bind_path pa (i + length xs) ys fa')"
  by (induction xs arbitrary: i fa) (auto split: sum.splits option.splits)

lemma bind_path_excess: "length pa \<le> i \<Longrightarrow> bind_path pa i (x # xs) fa = Inl IndexError"
  by (simp add: getitem_def)

lemma bind_query_append:
  "bind_query qa qd i (xs @ ys) fa =
     (case bind_query qa qd i xs fa of Inl e \<Rightarrow> Inl e
      | Inr fa' \<Rightarrow> bind_query qa qd (i + length xs) ys fa')"
proof (induction xs arbitrary: i fa)
  case Nil
  show ?case by simp
next
  case (Cons a xs)
  obtain nm v where a: "a = (nm, v)" by (cases a)
  show ?case unfolding a by (simp add: Cons.IH split: sum.split)
qed

lemma bind_query_excess:
  "length qa \<le> i \<Longrightarrow> nm \<in> set (map fst qd) \<Longrightarrow>
   bind_query qa qd i ((nm, v) # xs) fa = Inl IndexError"
  by (simp add: getitem_def in_keys_OStr)

lemma bind_path_too_long:
  assumes more: "length pa < length segs"
    and lead: "bind_path pa 0 (take (length pa) segs) [] = Inr fa"
  shows "bind_path pa 0 segs [] = Inl IndexError"
proof -
  from more obtain x xs where d: "drop (length pa) segs = x # xs"
    by (cases "drop (length pa) segs") auto
  have "segs = take (length pa) segs @ x # xs" using d by (metis append_take_drop_id)
  then have "bind_path pa 0 segs [] = bind_path pa 0 (take (length pa) segs @ x # xs) []" by simp
  also have "\<dots> = bind_path pa (length (take (length pa) segs)) (x # xs) fa"
    by (simp only: bind_path_append lead sum.case add_0)
  also have "\<dots> = Inl IndexError" using more by (intro bind_path_excess) simp
  finally show ?thesis .
qed

lemma bind_query_too_long:
  assumes more: "length qa < length qd"
    and lead: "bind_query qa qd 0 (take (length qa) qd) fa = Inr fa'"
  shows "bind_query qa qd 0 qd fa = Inl IndexError"
proof -
  from more obtain nm v xs where d: "drop (length qa) qd = (nm, v) # xs"
    by (cases "drop (length qa) qd") auto
  have split: "qd = take (length qa) qd @ (nm, v) # xs" using d by (metis append_take_drop_id)
  have "(nm, v) \<in> set qd" using d by (metis in_set_dropD list.set_intros(1))
  then have nm: "nm \<in> set (map fst qd)" by force
  have "bind_query qa qd 0 qd fa = bind_query qa qd 0 (take (length qa) qd @ (nm, v) # xs) fa"
    using split by simp
  also have "\<dots> = bind_query qa qd (length (take (length qa) qd)) ((nm, v) # xs) fa'"
    by (simp only: bind_query_append lead sum.case add_0)
  also have "\<dots> = Inl IndexError" using more nm by (intro bind_query_excess) simp_all
  finally show ?thesis .
qed

lemma IndexError_propagates: "except_clauses IndexError = Propagated IndexError"
  by (simp add: except_clauses_def issubclass_def)

text \<open>
  C3, as the code has it. When the path has more segments after the route key than the
  matched endpoint declares path parameters, and the leading segments are coerced without
  an exception, the first loop raises \<open>IndexError\<close> at the first excess segment. Neither
  \<open>except\<close> clause catches it: no response is sent and the exception leaves the
  dispatcher.
\<close>

theorem excess_path_segments_propagate:
  assumes url: "urlsplit_path lib (scope_path sc) = Inr up"
    and segs: "filter (\<lambda>x. x \<noteq> []) (split_chr CHR ''/'' up) = key # segs"
    and qs: "parse_qs lib (scope_query_string sc) = Inr items"
    and qd: "decode_items lib items [] = Inr qd"
    and dec: "decode_body lib msg = Inr data"
    and match: "List.find (\<lambda>e. path e = key \<and> method' e = scope_method sc) endpoints = Some ep"
    and more: "length (path_args ep) < length segs"
    and lead: "bind_path (path_args ep) 0 (take (length (path_args ep)) segs) [] = Inr fa"
  shows "handle_http lib endpoints sc msg = Propagated IndexError"
proof -
  have "bind ep segs qd data = Inl IndexError"
    by (simp add: bind_def bind_path_too_long [OF more lead])
  then have "find_endpoint lib endpoints (scope_path sc) (scope_query_string sc) (scope_method sc) data
      = Inl IndexError"
    by (simp add: find_endpoint_parsed [OF url qs qd segs] find_loop_find match)
  then show ?thesis by (simp add: handle_http_def dec IndexError_propagates)
qed

text \<open>
  C10, as the code has it. When the query dict has more entries than the matched endpoint
  declares query parameters, the path segments are bound without an exception and the
  leading entries are coerced without an exception, the second loop raises \<open>IndexError\<close>
  at the first excess entry; no response is sent and the exception leaves the dispatcher.
\<close>

theorem excess_query_entries_propagate:
  assumes url: "urlsplit_path lib (scope_path sc) = Inr up"
    and segs: "filter (\<lambda>x. x \<noteq> []) (split_chr CHR ''/'' up) = urlst"
    and qs: "parse_qs lib (scope_query_string sc) = Inr items"
    and qd: "decode_items lib items [] = Inr qd"
    and dec: "decode_body lib msg = Inr data"
    and match: "List.find (\<lambda>e. path e = (case urlst of [] \<Rightarrow> [] | k # r \<Rightarrow> k)
                  \<and> method' e = scope_method sc) endpoints = Some ep"
    and pth: "bind_path (path_args ep) 0 (tl urlst) [] = Inr fa1"
    and more: "length (query_args ep) < length qd"
    and lead: "bind_query (query_args ep) qd 0 (take (length (query_args ep)) qd) fa1 = Inr fa2"
  shows "handle_http lib endpoints sc msg = Propagated IndexError"
proof -
  have "bind ep (tl urlst) qd data = Inl IndexError"
    by (simp add: bind_def pth bind_query_too_long [OF more lead])
  then have "find_endpoint lib endpoints (scope_path sc) (scope_query_string sc) (scope_method sc) data
      = Inl IndexError"
    by (simp add: find_endpoint_parsed [OF url qs qd segs] find_loop_find match)
  then show ?thesis by (simp add: handle_http_def dec IndexError_propagates)
qed


lemma sample_query_empty: "parse_qs sample_lib [] = Inr []"
  by (simp add: sample_lib_def sample_parse_qs_def qs_field_def)

lemma sample_body_empty: "decode_body sample_lib (Some []) = Inr PNone"
  by (simp add: decode_body_def sample_lib_def sample_loads_def issubclass_def)

theorem excess_path_segments_propagate_witness:
  "urlsplit_path sample_lib ''/fibonacci/7/8'' = Inr ''/fibonacci/7/8''
   \<and> filter (\<lambda>x. x \<noteq> []) (split_chr CHR ''/'' ''/fibonacci/7/8'') = [''fibonacci'', ''7'', ''8'']
   \<and> map fst (path_args (app_endpoints sample_mean_call ! 1)) = [''n'']
   \<and> bind_path (path_args (app_endpoints sample_mean_call ! 1)) 0 [''7''] [] = Inr [(''n'', PInt 7)]
   \<and> handle_http sample_lib (app_endpoints sample_mean_call)
        \<lparr>scope_path = ''/fibonacci/7/8'', scope_query_string = [], scope_method = ''GET''\<rparr>
        (Some []) = Propagated IndexError"
proof -
  let ?ep = "\<lparr>path = ''fibonacci'', method' = ''GET'', func = fibonacci,
               path_args = [(''n'', py_int)], query_args = []\<rparr>"
  let ?sc = "\<lparr>scope_path = ''/fibonacci/7/8'', scope_query_string = [], scope_method = ''GET''\<rparr>"
  have url: "urlsplit_path sample_lib (scope_path ?sc) = Inr ''/fibonacci/7/8''"
    by (simp add: sample_urlsplit)
  have segs: "filter (\<lambda>x. x \<noteq> []) (split_chr CHR ''/'' ''/fibonacci/7/8'') = ''fibonacci'' # [''7'', ''8'']"
    by simp
  have qs: "parse_qs sample_lib (scope_query_string ?sc) = Inr []"
    by (simp add: sample_query_empty)
  have qd: "decode_items sample_lib [] [] = Inr []" by simp
  have match: "List.find (\<lambda>e. path e = ''fibonacci'' \<and> method' e = scope_method ?sc)
      (app_endpoints sample_mean_call) = Some ?ep"
    by (simp add: app_endpoints_value)
  have more: "length (path_args ?ep) < length [''7'', ''8'']" by simp
  have lead: "bind_path (path_args ?ep) 0 (take (length (path_args ?ep)) [''7'', ''8'']) []
      = Inr [(''n'', PInt 7)]"
    by (simp add: getitem_def py_int_7 del: py_int.simps)
  have nth: "app_endpoints sample_mean_call ! 1 = ?ep" by (simp add: app_endpoints_value)
  from excess_path_segments_propagate [OF url segs qs qd sample_body_empty match more lead]
    url segs lead nth
  show ?thesis by simp
qed

text \<open>
  C3 as written fails on \<open>GET /factorial/5\<close>: \<open>factorial\<close> declares no path parameter,
  the request has one segment after the route key, and the outcome is the propagated
  \<open>IndexError\<close>, not a response with status 422.
\<close>

theorem excess_path_segment_counterexample:
  "path (app_endpoints sample_mean_call ! 0) = ''factorial''
   \<and> path_args (app_endpoints sample_mean_call ! 0) = []
   \<and> handle_http sample_lib (app_endpoints sample_mean_call)
        \<lparr>scope_path = ''/factorial/5'', scope_query_string = [], scope_method = ''GET''\<rparr>
        (Some []) = Propagated IndexError"
proof -
  have f: "find_endpoint sample_lib (app_endpoints sample_mean_call) ''/factorial/5'' [] ''GET'' PNone
      = Inl IndexError"
    unfolding find_endpoint_def sample_urlsplit sample_query_empty app_endpoints_value
    by (simp add: bind_def getitem_def Let_def)
  have h: "handle_http sample_lib (app_endpoints sample_mean_call)
        \<lparr>scope_path = ''/factorial/5'', scope_query_string = [], scope_method = ''GET''\<rparr>
        (Some []) = Propagated IndexError"
    by (simp add: handle_http_def sample_body_empty f IndexError_propagates)
  have a: "path (app_endpoints sample_mean_call ! 0) = ''factorial''"
    "path_args (app_endpoints sample_mean_call ! 0) = []"
    by (simp_all add: app_endpoints_value)
  from a h show ?thesis by blast
qed

lemma sample_query_n5_m1: "parse_qs sample_lib ''n=5&m=1'' = Inr [(''n'', [''5'']), (''m'', [''1''])]"
  by (simp add: sample_lib_def sample_parse_qs_def qs_field_def qs_add_def)

lemma sample_query_nabc_m1:
  "parse_qs sample_lib ''n=abc&m=1'' = Inr [(''n'', [''abc'']), (''m'', [''1''])]"
  by (simp add: sample_lib_def sample_parse_qs_def qs_field_def qs_add_def)

lemma sample_decode_m: "bytes_decode sample_lib ''m'' = Inr ''m''"
  by (simp add: sample_lib_def sample_decode_def)

theorem excess_query_entries_propagate_witness:
  "map name (query_args (app_endpoints sample_mean_call ! 0)) = [''n'']
   \<and> parse_qs sample_lib ''n=5&m=1'' = Inr [(''n'', [''5'']), (''m'', [''1''])]
   \<and> bind_query (query_args (app_endpoints sample_mean_call ! 0))
        [(''n'', ''5''), (''m'', ''1'')] 0 [(''n'', ''5'')] [] = Inr [(''n'', PInt 5)]
   \<and> handle_http sample_lib (app_endpoints sample_mean_call)
        \<lparr>scope_path = ''/factorial/'', scope_query_string = ''n=5&m=1'', scope_method = ''GET''\<rparr>
        (Some []) = Propagated IndexError"
proof -
  let ?ep = "\<lparr>path = ''factorial'', method' = ''GET'', func = factorial, path_args = [],
               query_args = [\<lparr>name = ''n'', annotation = py_int, hashable = True\<rparr>]\<rparr>"
  let ?sc = "\<lparr>scope_path = ''/factorial/'', scope_query_string = ''n=5&m=1'', scope_method = ''GET''\<rparr>"
  let ?qd = "[(''n'', ''5''), (''m'', ''1'')]"
  have url: "urlsplit_path sample_lib (scope_path ?sc) = Inr ''/factorial/''"
    by (simp add: sample_urlsplit)
  have segs: "filter (\<lambda>x. x \<noteq> []) (split_chr CHR ''/'' ''/factorial/'') = [''factorial'']"
    by simp
  have qs: "parse_qs sample_lib (scope_query_string ?sc) = Inr [(''n'', [''5'']), (''m'', [''1''])]"
    by (simp add: sample_query_n5_m1)
  have qd: "decode_items sample_lib [(''n'', [''5'']), (''m'', [''1''])] [] = Inr ?qd"
    by (simp add: sample_decode_n sample_decode_m getitem_def)
  have match: "List.find (\<lambda>e. path e = (case [''factorial''] of [] \<Rightarrow> [] | k # r \<Rightarrow> k)
      \<and> method' e = scope_method ?sc) (app_endpoints sample_mean_call) = Some ?ep"
    by (simp add: app_endpoints_value)
  have pth: "bind_path (path_args ?ep) 0 (tl [''factorial'']) [] = Inr []" by simp
  have more: "length (query_args ?ep) < length ?qd" by simp
  have lead: "bind_query (query_args ?ep) ?qd 0 (take (length (query_args ?ep)) ?qd) []
      = Inr [(''n'', PInt 5)]"
    by (simp add: getitem_def in_keys_def py_int_5 del: py_int.simps)
  have nth: "app_endpoints sample_mean_call ! 0 = ?ep" by (simp add: app_endpoints_value)
  from excess_query_entries_propagate [OF url segs qs qd sample_body_empty match pth more lead]
    sample_query_n5_m1 lead nth
  show ?thesis by simp
qed

text \<open>
  C10 as written fails on \<open>GET /factorial/?n=abc&m=1\<close>: the query dict has two entries
  for one declared query parameter, but the coercion of the first entry raises
  \<open>ValueError\<close> before the second is reached, and the response has status 422.
\<close>

theorem excess_query_entries_counterexample:
  "map name (query_args (app_endpoints sample_mean_call ! 0)) = [''n'']
   \<and> parse_qs sample_lib ''n=abc&m=1'' = Inr [(''n'', [''abc'']), (''m'', [''1''])]
   \<and> handle_http sample_lib (app_endpoints sample_mean_call)
        \<lparr>scope_path = ''/factorial/'', scope_query_string = ''n=abc&m=1'', scope_method = ''GET''\<rparr>
        (Some [])
      = Responded \<lparr>body = [], status_code = 422, headers = [(''content-type'', ''text/plain'')]\<rparr>"
proof -
  have f: "find_endpoint sample_lib (app_endpoints sample_mean_call) ''/factorial/'' ''n=abc&m=1''
      ''GET'' PNone = Inl ValueError"
    unfolding find_endpoint_def sample_urlsplit sample_query_nabc_m1 app_endpoints_value
    by (simp add: bind_def getitem_def Let_def sample_decode_n sample_decode_m in_keys_def
        py_int_abc del: py_int.simps)
  have h: "handle_http sample_lib (app_endpoints sample_mean_call)
        \<lparr>scope_path = ''/factorial/'', scope_query_string = ''n=abc&m=1'', scope_method = ''GET''\<rparr>
        (Some [])
      = Responded \<lparr>body = [], status_code = 422, headers = [(''content-type'', ''text/plain'')]\<rparr>"
    by (simp add: handle_http_def sample_body_empty f except_clauses_def issubclass_def
        HttpResponse_init_def truthy_def default_headers_def)
  have a: "map name (query_args (app_endpoints sample_mean_call ! 0)) = [''n'']"
    by (simp add: app_endpoints_value)
  from a sample_query_nabc_m1 h show ?thesis by blast
qed

section \<open>Positional binding of the query\<close>

lemma bind_query_other:
  "bind_query qa qd i r fa = Inr fa' \<Longrightarrow> k \<notin> set (map fst r) \<Longrightarrow> map_of fa' k = map_of fa k"
proof (induction r arbitrary: i fa)
  case Nil
  then show ?case by simp
next
  case (Cons a r)
  obtain nm v where a: "a = (nm, v)" by (cases a)
  from Cons.prems a have k: "k \<noteq> nm" "k \<notin> set (map fst r)" by auto
  show ?case
  proof (cases "in_keys (OStr nm) qd")
    case True
    with Cons.prems a obtain p w where
      rest: "bind_query qa qd (Suc i) r (AList.update nm w fa) = Inr fa'"
      by (auto split: sum.splits)
    from Cons.IH [OF rest k(2)] k(1) show ?thesis by (simp add: update_conv')
  next
    case False
    with Cons.prems a have "bind_query qa qd (Suc i) r fa = Inr fa'" by simp
    from Cons.IH [OF this k(2)] show ?thesis .
  qed
qed

lemma bind_query_entry:
  "bind_query qa qd i r fa = Inr fa' \<Longrightarrow> distinct (map fst r) \<Longrightarrow>
   set (map fst r) \<subseteq> set (map fst qd) \<Longrightarrow> j < length r \<Longrightarrow>
   i + j < length qa \<and>
   (\<exists>v. annotation (qa ! (i + j)) (PBytes (snd (r ! j))) = Inr v \<and>
        map_of fa' (fst (r ! j)) = Some v)"
proof (induction r arbitrary: i fa j)
  case Nil
  then show ?case by simp
next
  case (Cons a r)
  obtain nm v where a: "a = (nm, v)" by (cases a)
  from Cons.prems a have inq: "in_keys (OStr nm) qd" by (simp add: in_keys_OStr)
  with Cons.prems a obtain p w where
      p: "getitem qa i = Inr p" and w: "annotation p (PBytes v) = Inr w"
      and rest: "bind_query qa qd (Suc i) r (AList.update nm w fa) = Inr fa'"
      by (auto split: sum.splits)
  from p have i: "i < length qa" "p = qa ! i" by (auto simp: getitem_def split: if_splits)
  from Cons.prems a have d: "distinct (map fst r)" "nm \<notin> set (map fst r)"
    "set (map fst r) \<subseteq> set (map fst qd)" by auto
  show ?case
  proof (cases j)
    case 0
    from bind_query_other [OF rest d(2)] have "map_of fa' nm = Some w" by (simp add: update_conv')
    with 0 a i w show ?thesis by simp
  next
    case (Suc j')
    with Cons.prems have "j' < length r" by simp
    from Cons.IH [OF rest d(1) d(3) this] Suc show ?thesis by simp
  qed
qed

text \<open>
  C5. The second loop is positional. Its \<open>i\<close>-th step takes the \<open>i\<close>-th entry of the
  query dict (in its iteration order), calls the annotation of the \<open>i\<close>-th declared query
  parameter on its value, whatever the names of the two are, and stores the result under
  the key of the entry; an exception of the lookup or of the call ends the loop. So when
  the loop returns, every entry has been coerced by the annotation at its own position and
  is found under its own key (the keys of a dict are distinct).
\<close>

theorem query_binding_positional:
  assumes "i < length qd"
  shows "bind_query qa qd 0 (take (Suc i) qd) fa =
           (case bind_query qa qd 0 (take i qd) fa of
              Inl e \<Rightarrow> Inl e
            | Inr fa_i \<Rightarrow>
                (case getitem qa i of
                   Inl e \<Rightarrow> Inl e
                 | Inr p \<Rightarrow>
                     (case annotation p (PBytes (snd (qd ! i))) of
                        Inl e \<Rightarrow> Inl e
                      | Inr v \<Rightarrow> Inr (AList.update (fst (qd ! i)) v fa_i))))
         \<and> (bind_query qa qd 0 qd fa = Inr fa' \<and> distinct (map fst qd) \<longrightarrow>
              i < length qa \<and>
              (\<exists>v. annotation (qa ! i) (PBytes (snd (qd ! i))) = Inr v
                   \<and> map_of fa' (fst (qd ! i)) = Some v))"
proof (intro conjI impI)
  show "bind_query qa qd 0 (take (Suc i) qd) fa =
           (case bind_query qa qd 0 (take i qd) fa of
              Inl e \<Rightarrow> Inl e
            | Inr fa_i \<Rightarrow>
                (case getitem qa i of
                   Inl e \<Rightarrow> Inl e
                 | Inr p \<Rightarrow>
                     (case annotation p (PBytes (snd (qd ! i))) of
                        Inl e \<Rightarrow> Inl e
                      | Inr v \<Rightarrow> Inr (AList.update (fst (qd ! i)) v fa_i))))"
  proof -
    obtain nm v where e: "qd ! i = (nm, v)" by (cases "qd ! i")
    from assms e have "(nm, v) \<in> set qd" by (metis nth_mem)
    then have k: "in_keys (OStr nm) qd" by (force simp: in_keys_OStr)
    from assms have t: "take (Suc i) qd = take i qd @ [(nm, v)]"
      by (simp add: take_Suc_conv_app_nth e)
    from assms have l: "length (take i qd) = i" by simp
    show ?thesis
      unfolding t bind_query_append l e
      by (simp add: k split: sum.split)
  qed
next
  assume a: "bind_query qa qd 0 qd fa = Inr fa' \<and> distinct (map fst qd)"
  then have b: "bind_query qa qd 0 qd fa = Inr fa'" and d: "distinct (map fst qd)" by simp_all
  from bind_query_entry [OF b d subset_refl assms]
  show "i < length qa" by simp
  from bind_query_entry [OF b d subset_refl assms]
  show "\<exists>v. annotation (qa ! i) (PBytes (snd (qd ! i))) = Inr v
                   \<and> map_of fa' (fst (qd ! i)) = Some v" by simp
qed

lemma decode_items_distinct:
  "decode_items lib items d = Inr qd \<Longrightarrow> distinct (map fst d) \<Longrightarrow> distinct (map fst qd)"
proof (induction items arbitrary: d)
  case Nil
  then show ?case by simp
next
  case (Cons a items)
  obtain k v where a: "a = (k, v)" by (cases a)
  from Cons.prems a obtain k' x where
    rest: "decode_items lib items (AList.update k' x d) = Inr qd"
    by (auto split: sum.splits)
  from Cons.prems have "distinct (map fst (AList.update k' x d))" by (simp add: distinct_update)
  from Cons.IH [OF rest this] show ?case .
qed

lemma py_int_12: "py_int (PBytes ''12'') = Inr (PInt 12)"
  by (simp add: py_int_literal_def int_space_def is_digit_def digit_val_def)

lemma py_list_xy: "py_list (PBytes ''xy'') = Inr (PList [PInt 120, PInt 121])"
  by simp

theorem query_binding_positional_witness:
  "bind_query [\<lparr>name = ''a'', annotation = py_int, hashable = True\<rparr>,
                \<lparr>name = ''b'', annotation = py_list, hashable = True\<rparr>]
      [(''b'', ''12''), (''a'', ''xy'')] 0 [(''b'', ''12''), (''a'', ''xy'')] []
     = Inr [(''b'', PInt 12), (''a'', PList [PInt 120, PInt 121])]
   \<and> distinct (map fst [(''b'', ''12''), (''a'', ''xy'')])
   \<and> annotation ([\<lparr>name = ''a'', annotation = py_int, hashable = True\<rparr>,
                \<lparr>name = ''b'', annotation = py_list, hashable = True\<rparr>] ! 0)
        (PBytes ''12'') = Inr (PInt 12)
   \<and> map_of [(''b'', PInt 12), (''a'', PList [PInt 120, PInt 121])] ''b'' = Some (PInt 12)"
proof -
  let ?qa = "[\<lparr>name = ''a'', annotation = py_int, hashable = True\<rparr>,
                \<lparr>name = ''b'', annotation = py_list, hashable = True\<rparr>]"
  let ?qd = "[(''b'', ''12''), (''a'', ''xy'')]"
  have b: "bind_query ?qa ?qd 0 ?qd [] = Inr [(''b'', PInt 12), (''a'', PList [PInt 120, PInt 121])]"
    by (simp add: getitem_def in_keys_def py_int_12 py_list_xy del: py_int.simps py_list.simps)
  have d: "distinct (map fst ?qd)" by simp
  have i: "0 < length ?qd" by simp
  from query_binding_positional
    [OF i, of ?qa "[]" "[(''b'', PInt 12), (''a'', PList [PInt 120, PInt 121])]"] b d
  have "\<exists>v. annotation (?qa ! 0) (PBytes (snd (?qd ! 0))) = Inr v
    \<and> map_of [(''b'', PInt 12), (''a'', PList [PInt 120, PInt 121])] (fst (?qd ! 0)) = Some v"
    by blast
  with b d show ?thesis by (simp add: py_int_12 del: py_int.simps)
qed

section \<open>Exceptions and status codes\<close>

lemma find_endpoint_no_match:
  assumes "urlsplit_path lib p = Inr up" and "parse_qs lib q = Inr items"
    and "decode_items lib items [] = Inr qd"
    and "filter (\<lambda>x. x \<noteq> []) (split_chr CHR ''/'' up) = urlst"
    and "List.find (\<lambda>e. path e = (case urlst of [] \<Rightarrow> [] | k # r \<Rightarrow> k) \<and> method' e = m) eps = None"
  shows "find_endpoint lib eps p q m data = Inl NotImplementedError"
  by (simp add: find_endpoint_parsed [OF assms(1-4)] find_loop_find assms(5))

lemma NotImplementedError_404:
  "except_clauses NotImplementedError =
     Responded \<lparr>body = [], status_code = 404, headers = [(''content-type'', ''text/plain'')]\<rparr>"
  by (simp add: except_clauses_def issubclass_def HttpResponse_init_def truthy_def
      default_headers_def)

text \<open>
  C4. Once the body is decoded, an exception of \<open>find_endpoint\<close> that is a
  \<open>ValueError\<close>, a \<open>TypeError\<close> or a \<open>JSONDecodeError\<close> gives the response with status
  422; when no endpoint has the route key and method of the request, \<open>find_endpoint\<close>
  raises \<open>NotImplementedError\<close> and the response has status 404; an exception of any
  other class gives no response and leaves the dispatcher.
\<close>

theorem exception_mapping:
  assumes dec: "decode_body lib msg = Inr data"
  shows "(find_endpoint lib endpoints (scope_path sc) (scope_query_string sc) (scope_method sc) data
            = Inl e
          \<and> (issubclass e ValueError \<or> issubclass e TypeError \<or> issubclass e JSONDecodeError)
          \<longrightarrow> handle_http lib endpoints sc msg =
                Responded \<lparr>body = [], status_code = 422,
                           headers = [(''content-type'', ''text/plain'')]\<rparr>)
       \<and> (urlsplit_path lib (scope_path sc) = Inr up
          \<and> parse_qs lib (scope_query_string sc) = Inr items
          \<and> decode_items lib items [] = Inr qd
          \<and> filter (\<lambda>x. x \<noteq> []) (split_chr CHR ''/'' up) = urlst
          \<and> List.find (\<lambda>ep. path ep = (case urlst of [] \<Rightarrow> [] | k # r \<Rightarrow> k)
                             \<and> method' ep = scope_method sc) endpoints = None
          \<longrightarrow> find_endpoint lib endpoints (scope_path sc) (scope_query_string sc) (scope_method sc)
                  data = Inl NotImplementedError
              \<and> handle_http lib endpoints sc msg =
                Responded \<lparr>body = [], status_code = 404,
                           headers = [(''content-type'', ''text/plain'')]\<rparr>)
       \<and> (find_endpoint lib endpoints (scope_path sc) (scope_query_string sc) (scope_method sc) data
            = Inl e'
          \<and> \<not> issubclass e' ValueError \<and> \<not> issubclass e' TypeError
          \<and> \<not> issubclass e' JSONDecodeError \<and> \<not> issubclass e' NotImplementedError
          \<longrightarrow> handle_http lib endpoints sc msg = Propagated e')"
proof (intro conjI impI)
  assume "find_endpoint lib endpoints (scope_path sc) (scope_query_string sc) (scope_method sc) data
            = Inl e
          \<and> (issubclass e ValueError \<or> issubclass e TypeError \<or> issubclass e JSONDecodeError)"
  then show "handle_http lib endpoints sc msg =
                Responded \<lparr>body = [], status_code = 422,
                           headers = [(''content-type'', ''text/plain'')]\<rparr>"
    by (simp add: handle_http_def dec except_clauses_def HttpResponse_init_def truthy_def
        default_headers_def)
next
  assume a: "urlsplit_path lib (scope_path sc) = Inr up
          \<and> parse_qs lib (scope_query_string sc) = Inr items
          \<and> decode_items lib items [] = Inr qd
          \<and> filter (\<lambda>x. x \<noteq> []) (split_chr CHR ''/'' up) = urlst
          \<and> List.find (\<lambda>ep. path ep = (case urlst of [] \<Rightarrow> [] | k # r \<Rightarrow> k)
                             \<and> method' ep = scope_method sc) endpoints = None"
  then have f: "find_endpoint lib endpoints (scope_path sc) (scope_query_string sc) (scope_method sc)
                  data = Inl NotImplementedError"
    by (intro find_endpoint_no_match) auto
  then show "find_endpoint lib endpoints (scope_path sc) (scope_query_string sc) (scope_method sc)
                  data = Inl NotImplementedError" .
  from f show "handle_http lib endpoints sc msg =
                Responded \<lparr>body = [], status_code = 404,
                           headers = [(''content-type'', ''text/plain'')]\<rparr>"
    by (simp add: handle_http_def dec NotImplementedError_404)
next
  assume "find_endpoint lib endpoints (scope_path sc) (scope_query_string sc) (scope_method sc) data
            = Inl e'
          \<and> \<not> issubclass e' ValueError \<and> \<not> issubclass e' TypeError
          \<and> \<not> issubclass e' JSONDecodeError \<and> \<not> issubclass e' NotImplementedError"
  then show "handle_http lib endpoints sc msg = Propagated e'"
    by (simp add: handle_http_def dec except_clauses_def)
qed

lemma sample_query_nabc: "parse_qs sample_lib ''n=abc'' = Inr [(''n'', [''abc''])]"
  by (simp add: sample_lib_def sample_parse_qs_def qs_field_def qs_add_def)

lemma sample_query_x1: "parse_qs sample_lib ''x=1'' = Inr [(''x'', [''1''])]"
  by (simp add: sample_lib_def sample_parse_qs_def qs_field_def qs_add_def)

lemma sample_decode_x: "bytes_decode sample_lib ''x'' = Inr ''x''"
  by (simp add: sample_lib_def sample_decode_def)

theorem exception_mapping_witness:
  "find_endpoint sample_lib (app_endpoints sample_mean_call) ''/factorial/'' ''n=abc'' ''GET'' PNone
     = Inl ValueError
   \<and> handle_http sample_lib (app_endpoints sample_mean_call)
        \<lparr>scope_path = ''/factorial/'', scope_query_string = ''n=abc'', scope_method = ''GET''\<rparr>
        (Some [])
      = Responded \<lparr>body = [], status_code = 422, headers = [(''content-type'', ''text/plain'')]\<rparr>
   \<and> List.find (\<lambda>ep. path ep = ''unknownroute'' \<and> method' ep = ''GET'')
        (app_endpoints sample_mean_call) = None
   \<and> handle_http sample_lib (app_endpoints sample_mean_call)
        \<lparr>scope_path = ''/unknownroute'', scope_query_string = [], scope_method = ''GET''\<rparr>
        (Some [])
      = Responded \<lparr>body = [], status_code = 404, headers = [(''content-type'', ''text/plain'')]\<rparr>
   \<and> find_endpoint sample_lib (app_endpoints sample_mean_call) ''/fibonacci/'' ''x=1'' ''GET'' PNone
     = Inl IndexError
   \<and> handle_http sample_lib (app_endpoints sample_mean_call)
        \<lparr>scope_path = ''/fibonacci/'', scope_query_string = ''x=1'', scope_method = ''GET''\<rparr>
        (Some [])
      = Propagated IndexError"
proof -
  let ?eps = "app_endpoints sample_mean_call"
  let ?s1 = "\<lparr>scope_path = ''/factorial/'', scope_query_string = ''n=abc'', scope_method = ''GET''\<rparr>"
  let ?s2 = "\<lparr>scope_path = ''/unknownroute'', scope_query_string = [], scope_method = ''GET''\<rparr>"
  let ?s3 = "\<lparr>scope_path = ''/fibonacci/'', scope_query_string = ''x=1'', scope_method = ''GET''\<rparr>"
  have f1: "find_endpoint sample_lib ?eps (scope_path ?s1) (scope_query_string ?s1)
      (scope_method ?s1) PNone = Inl ValueError"
    unfolding find_endpoint_def sample_urlsplit app_endpoints_value
    by (simp add: sample_query_nabc bind_def getitem_def Let_def sample_decode_n in_keys_def
        py_int_abc del: py_int.simps)
  have v: "issubclass ValueError ValueError" by (simp add: issubclass_def)
  have u: "urlsplit_path sample_lib (scope_path ?s2) = Inr ''/unknownroute''"
    by (simp add: sample_urlsplit)
  have q: "parse_qs sample_lib (scope_query_string ?s2) = Inr []"
    by (simp add: sample_query_empty)
  have di: "decode_items sample_lib [] [] = Inr []" by simp
  have sg: "filter (\<lambda>x. x \<noteq> []) (split_chr CHR ''/'' ''/unknownroute'') = [''unknownroute'']"
    by simp
  have nf: "List.find (\<lambda>ep. path ep = (case [''unknownroute''] of [] \<Rightarrow> [] | k # r \<Rightarrow> k)
      \<and> method' ep = scope_method ?s2) ?eps = None"
    by (simp add: app_endpoints_value)
  have f3: "find_endpoint sample_lib ?eps (scope_path ?s3) (scope_query_string ?s3)
      (scope_method ?s3) PNone = Inl IndexError"
    unfolding find_endpoint_def sample_urlsplit app_endpoints_value
    by (simp add: sample_query_x1 bind_def getitem_def Let_def sample_decode_x in_keys_def)
  have i: "\<not> issubclass IndexError ValueError" "\<not> issubclass IndexError TypeError"
    "\<not> issubclass IndexError JSONDecodeError" "\<not> issubclass IndexError NotImplementedError"
    by (simp_all add: issubclass_def)
  have r1: "handle_http sample_lib ?eps ?s1 (Some []) =
      Responded \<lparr>body = [], status_code = 422, headers = [(''content-type'', ''text/plain'')]\<rparr>"
    using exception_mapping [OF sample_body_empty, of ?eps ?s1 ValueError] f1 v by blast
  have r2: "handle_http sample_lib ?eps ?s2 (Some []) =
      Responded \<lparr>body = [], status_code = 404, headers = [(''content-type'', ''text/plain'')]\<rparr>"
    using exception_mapping [OF sample_body_empty, of ?eps ?s2 _ "''/unknownroute''" "[]" "[]"
        "[''unknownroute'']"] u q di sg nf by blast
  have r3: "handle_http sample_lib ?eps ?s3 (Some []) = Propagated IndexError"
    using exception_mapping [OF sample_body_empty, of ?eps ?s3 _ _ _ _ _ IndexError] f3 i by blast
  have nf': "List.find (\<lambda>ep. path ep = ''unknownroute'' \<and> method' ep = ''GET'') ?eps = None"
    using nf by simp
  from f1 r1 nf' r2 f3 r3 show ?thesis by simp
qed

section \<open>The route key of a registration\<close>

lemma split_chr_hd: "\<exists>ws. split_chr sep s = takeWhile (\<lambda>x. x \<noteq> sep) s # ws"
  by (induction s) (auto split: list.splits)

lemma split_chr_slash:
  "\<exists>ws. split_chr CHR ''/'' (CHR ''/'' # u) = [] # takeWhile (\<lambda>x. x \<noteq> CHR ''/'') u # ws"
  using split_chr_hd [of "CHR ''/''" u] by auto

text \<open>
  C6, as the code has it. The route key is the second element of \<open>path.split("/")\<close>.
  For a template that starts with a slash followed by another character, registration
  returns and the route key is the first non-empty segment of the template, the rest of
  the template being dropped. In general a registration that returns appends one endpoint
  whose route key is that second element, and a template without a slash makes the
  registration raise \<open>IndexError\<close>.
\<close>

theorem routeKey_of_template:
  "(pth = CHR ''/'' # c # rest \<and> c \<noteq> CHR ''/'' \<longrightarrow>
      (\<exists>ep. add_endpoint endpoints pth meth f = Inr (endpoints @ [ep])
            \<and> path ep = takeWhile (\<lambda>x. x \<noteq> CHR ''/'') (c # rest)
            \<and> spec_routeKey pth = Some (path ep)))
   \<and> (add_endpoint endpoints pth meth f = Inr r \<longrightarrow>
      (\<exists>ep. r = endpoints @ [ep] \<and> getitem (split_chr CHR ''/'' pth) 1 = Inr (path ep)))
   \<and> (CHR ''/'' \<notin> set pth \<longrightarrow> add_endpoint endpoints pth meth f = Inl IndexError)"
proof (intro conjI impI)
  assume a: "pth = CHR ''/'' # c # rest \<and> c \<noteq> CHR ''/''"
  let ?key = "takeWhile (\<lambda>x. x \<noteq> CHR ''/'') (c # rest)"
  from split_chr_slash [of "c # rest"] a obtain ws where
    sp: "split_chr CHR ''/'' pth = [] # ?key # ws" by auto
  from a have ne: "?key \<noteq> []" by simp
  from sp have g: "getitem (split_chr CHR ''/'' pth) 1 = Inr ?key" by (simp add: getitem_def)
  from sp ne have s: "spec_routeKey pth = Some ?key" by (simp add: spec_routeKey_def)
  show "\<exists>ep. add_endpoint endpoints pth meth f = Inr (endpoints @ [ep])
            \<and> path ep = takeWhile (\<lambda>x. x \<noteq> CHR ''/'') (c # rest)
            \<and> spec_routeKey pth = Some (path ep)"
    using g s by (simp add: add_endpoint_def Let_def)
next
  assume "add_endpoint endpoints pth meth f = Inr r"
  then show "\<exists>ep. r = endpoints @ [ep] \<and> getitem (split_chr CHR ''/'' pth) 1 = Inr (path ep)"
    by (auto simp: add_endpoint_def Let_def split: sum.splits)
next
  assume n: "CHR ''/'' \<notin> set pth"
  have "split_chr CHR ''/'' s = [s]" if "CHR ''/'' \<notin> set s" for s
    using that by (induction s) auto
  with n have "getitem (split_chr CHR ''/'' pth) 1 = Inl IndexError" by (simp add: getitem_def)
  then show "add_endpoint endpoints pth meth f = Inl IndexError"
    by (simp add: add_endpoint_def Let_def)
qed

theorem routeKey_of_template_witness:
  "(\<exists>ep. add_endpoint [] ''/fibonacci/{n}'' ''GET'' fibonacci = Inr [ep]
         \<and> path ep = ''fibonacci'' \<and> spec_routeKey ''/fibonacci/{n}'' = Some (path ep))
   \<and> add_endpoint [] ''abc'' ''GET'' factorial = Inl IndexError"
proof -
  have 1: "''/fibonacci/{n}'' = CHR ''/'' # CHR ''f'' # ''ibonacci/{n}'' \<and> CHR ''f'' \<noteq> CHR ''/''"
    by simp
  have 2: "CHR ''/'' \<notin> set ''abc''" by simp
  from routeKey_of_template [of "''/fibonacci/{n}''" "CHR ''f''" "''ibonacci/{n}''" "[]" "''GET''" fibonacci] 1
  have a: "\<exists>ep. add_endpoint [] ''/fibonacci/{n}'' ''GET'' fibonacci = Inr [ep]
         \<and> path ep = ''fibonacci'' \<and> spec_routeKey ''/fibonacci/{n}'' = Some (path ep)"
    by simp
  from routeKey_of_template [of "''abc''" _ _ "[]" "''GET''" factorial] 2
  have b: "add_endpoint [] ''abc'' ''GET'' factorial = Inl IndexError" by simp
  from a b show ?thesis by blast
qed

text \<open>
  C6 as written fails on templates that do not start with exactly one slash: for \<open>a/b\<close>
  the route key is \<open>b\<close> while the first non-empty segment is \<open>a\<close>, and for \<open>//a\<close> the
  route key is empty.
\<close>

theorem routeKey_counterexample:
  "map_sum id (map path) (add_endpoint [] ''a/b'' ''GET'' factorial) = Inr [''b'']
   \<and> spec_routeKey ''a/b'' = Some ''a''
   \<and> map_sum id (map path) (add_endpoint [] ''//a'' ''GET'' factorial) = Inr [[]]
   \<and> spec_routeKey ''//a'' = Some ''a''"
  by (simp add: add_endpoint_def getitem_def spec_routeKey_def Let_def)

end
